theory Spec2Isabelle
  imports Complex_Main
begin

section \<open>The data frame and the session state of coldpress.py\<close>

text \<open>
  The session state of the form holds a data frame with three columns, the participant
  number, the gender label and the time in seconds (the column names are transliterated to
  ASCII here), and the counter that numbers the next participant. A data frame is modelled
  as the list of its rows in index order. The time column holds floats; a row written by
  the form holds the integer read from the number widget, converted by
  \<open>float(time_sec)\<close>, which is exact for every integer the guard of \<open>add_data\<close> lets
  through.
\<close>

record row =
  Deltagare :: int
  Kon :: string
  Tid :: real

record session_state =
  data :: "row list"
  counter :: int

text \<open>
  What a callback shows to the user: \<open>st.error\<close> with the fixed validation message, or
  \<open>st.success\<close>. The success message of \<open>add_data\<close> carries the number
  \<open>counter - 1\<close>, computed after the increment.
\<close>

datatype feedback = error_shown | added_shown int | reset_shown

text \<open>The state created when the session has no data yet (source lines 31 to 35).\<close>

definition init_state :: session_state where
  "init_state = \<lparr>data = [], counter = 1\<rparr>"

text \<open>
  \<open>add_data\<close> (source lines 38 to 53). The callback reads the two form values
  \<open>gender\<close> and \<open>time_sec\<close>; they are arguments here. The number widget is created
  with integer bounds, so \<open>time_sec\<close> is a Python integer. The guard returns before
  anything is written; otherwise one row is concatenated after the existing ones and the
  counter is incremented.
\<close>

definition add_data :: "string \<Rightarrow> int \<Rightarrow> session_state \<Rightarrow> feedback \<times> session_state" where
  "add_data gender time_sec s =
     (if gender = [] \<or> time_sec < 0 \<or> time_sec > 300 then (error_shown, s)
      else
        let new_data = [\<lparr>Deltagare = counter s, Kon = gender, Tid = of_int time_sec\<rparr>];
            s1 = s\<lparr>data := data s @ new_data\<rparr>;
            s2 = s1\<lparr>counter := counter s1 + 1\<rparr>
        in (added_shown (counter s2 - 1), s2))"

text \<open>\<open>reset_data\<close> (source lines 56 to 61): a fresh empty frame, the counter back at 1.\<close>

definition reset_data :: "session_state \<Rightarrow> feedback \<times> session_state" where
  "reset_data s = (reset_shown, s\<lparr>data := [], counter := 1\<rparr>)"

text \<open>The two labels offered by the radio widget of the form (source line 153).\<close>

definition recognized :: "string \<Rightarrow> bool" where
  "recognized g = (g = ''Man'' \<or> g = ''Kvinna'')"

section \<open>Float results\<close>

text \<open>
  The statistics are numpy floats. Their special values decide what the program does on
  degenerate samples, so they are part of the model: a result is a finite number, one of the
  two infinities, or NaN, and the operations follow the IEEE 754 rules for these (\<open>0/0\<close>
  is NaN, \<open>x/0\<close> is an infinity with the sign of \<open>x\<close>, NaN propagates; numpy warns
  and does not raise). On finite values the arithmetic is exact: rounding is not modelled,
  nor is the sign of zero (every zero divisor that occurs here is a positive zero: a count, or
  a square root).
\<close>

datatype fl = Fin real | PInf | NInf | NaN

fun is_finite :: "fl \<Rightarrow> bool" where
  "is_finite (Fin x) = True"
| "is_finite PInf = False"
| "is_finite NInf = False"
| "is_finite NaN = False"

definition signed_inf :: "bool \<Rightarrow> fl" where
  "signed_inf positive = (if positive then PInf else NInf)"

fun fl_neg :: "fl \<Rightarrow> fl" where
  "fl_neg (Fin x) = Fin (- x)"
| "fl_neg PInf = NInf"
| "fl_neg NInf = PInf"
| "fl_neg NaN = NaN"

fun fl_add :: "fl \<Rightarrow> fl \<Rightarrow> fl" where
  "fl_add (Fin x) (Fin y) = Fin (x + y)"
| "fl_add NaN _ = NaN"
| "fl_add _ NaN = NaN"
| "fl_add PInf NInf = NaN"
| "fl_add NInf PInf = NaN"
| "fl_add PInf _ = PInf"
| "fl_add _ PInf = PInf"
| "fl_add NInf _ = NInf"
| "fl_add _ NInf = NInf"

definition fl_sub :: "fl \<Rightarrow> fl \<Rightarrow> fl" where
  "fl_sub a b = fl_add a (fl_neg b)"

fun fl_mul :: "fl \<Rightarrow> fl \<Rightarrow> fl" where
  "fl_mul (Fin x) (Fin y) = Fin (x * y)"
| "fl_mul NaN _ = NaN"
| "fl_mul _ NaN = NaN"
| "fl_mul (Fin x) PInf = (if x = 0 then NaN else signed_inf (0 < x))"
| "fl_mul (Fin x) NInf = (if x = 0 then NaN else signed_inf (x < 0))"
| "fl_mul PInf (Fin y) = (if y = 0 then NaN else signed_inf (0 < y))"
| "fl_mul NInf (Fin y) = (if y = 0 then NaN else signed_inf (y < 0))"
| "fl_mul PInf PInf = PInf"
| "fl_mul NInf NInf = PInf"
| "fl_mul PInf NInf = NInf"
| "fl_mul NInf PInf = NInf"

fun fl_div :: "fl \<Rightarrow> fl \<Rightarrow> fl" where
  "fl_div (Fin x) (Fin y) =
     (if y \<noteq> 0 then Fin (x / y) else if x = 0 then NaN else signed_inf (0 < x))"
| "fl_div NaN _ = NaN"
| "fl_div _ NaN = NaN"
| "fl_div (Fin x) PInf = Fin 0"
| "fl_div (Fin x) NInf = Fin 0"
| "fl_div PInf (Fin y) = signed_inf (0 \<le> y)"
| "fl_div NInf (Fin y) = signed_inf (y < 0)"
| "fl_div PInf PInf = NaN"
| "fl_div PInf NInf = NaN"
| "fl_div NInf PInf = NaN"
| "fl_div NInf NInf = NaN"

fun fl_sqrt :: "fl \<Rightarrow> fl" where
  "fl_sqrt (Fin x) = (if x < 0 then NaN else Fin (sqrt x))"
| "fl_sqrt PInf = PInf"
| "fl_sqrt NInf = NaN"
| "fl_sqrt NaN = NaN"

definition fl_sum :: "fl list \<Rightarrow> fl" where
  "fl_sum xs = foldr fl_add xs (Fin 0)"

section \<open>The library routines called by the comparison\<close>

text \<open>
  \<open>male_data\<close> and \<open>female_data\<close> are numpy arrays (\<open>.values\<close> of a column), so
  \<open>.mean()\<close> and \<open>.std()\<close> on source lines 85 to 88 are the numpy array methods.
  They are library code, not code of the repository, and are written out here as numpy
  defines them: the mean is the sum divided by the number of elements, the variance is the
  sum of the squared deviations from the mean divided by \<open>max (N - ddof) 0\<close>, and the
  standard deviation is the square root of the variance with the default \<open>ddof = 0\<close>,
  for the source passes no argument.
\<close>

definition np_mean :: "real list \<Rightarrow> fl" where
  "np_mean a = fl_div (fl_sum (map Fin a)) (Fin (real (length a)))"

definition np_var :: "nat \<Rightarrow> real list \<Rightarrow> fl" where
  "np_var ddof a =
     (let arrmean = np_mean a;
          x = map (\<lambda>v. fl_sub (Fin v) arrmean) a;
          ret = fl_sum (map (\<lambda>d. fl_mul d d) x);
          rcount = length a - ddof
      in fl_div ret (Fin (real rcount)))"

definition np_std :: "real list \<Rightarrow> fl" where
  "np_std a = fl_sqrt (np_var 0 a)"

text \<open>
  \<open>scipy.stats.ttest_ind\<close> with \<open>equal_var=False\<close>, called on source line 82, is
  library code too, and the specification gives its formulas (section 4.2, step 5). They are
  evaluated here in the float arithmetic above, on the sample variances (divisor
  \<open>n - 1\<close>) of the two samples.
\<close>

text \<open>
  Modelled from the spec: the statistic of \<open>scipy.stats.ttest_ind\<close>, which is not part
  of the repository: \<open>t = (mean1 - mean2) / sqrt (var1/n1 + var2/n2)\<close>.
\<close>

definition welch_t :: "fl \<Rightarrow> fl \<Rightarrow> nat \<Rightarrow> fl \<Rightarrow> fl \<Rightarrow> nat \<Rightarrow> fl" where
  "welch_t mean1 var1 n1 mean2 var2 n2 =
     fl_div (fl_sub mean1 mean2)
       (fl_sqrt (fl_add (fl_div var1 (Fin (real n1))) (fl_div var2 (Fin (real n2)))))"

text \<open>
  Modelled from the spec: the degrees of freedom used by \<open>scipy.stats.ttest_ind\<close>, which
  is not part of the repository, by the Welch-Satterthwaite equation:
  \<open>df = (var1/n1 + var2/n2)^2 / ((var1/n1)^2/(n1 - 1) + (var2/n2)^2/(n2 - 1))\<close>.
\<close>

definition welch_df :: "fl \<Rightarrow> nat \<Rightarrow> fl \<Rightarrow> nat \<Rightarrow> fl" where
  "welch_df var1 n1 var2 n2 =
     (let vn1 = fl_div var1 (Fin (real n1));
          vn2 = fl_div var2 (Fin (real n2))
      in fl_div (fl_mul (fl_add vn1 vn2) (fl_add vn1 vn2))
           (fl_add (fl_div (fl_mul vn1 vn1) (Fin (real n1 - 1)))
                   (fl_div (fl_mul vn2 vn2) (Fin (real n2 - 1)))))"

text \<open>
  Modelled from the spec: the p-value of \<open>scipy.stats.ttest_ind\<close>, which is not part of
  the repository: the two-sided tail probability of \<open>|t|\<close> under Student's t
  distribution with \<open>df\<close> degrees of freedom. The distribution function is a special
  function of the library; \<open>tail df x\<close> stands for the two-sided tail probability beyond
  \<open>x \<ge> 0\<close> and is a parameter of the model. A NaN statistic has a NaN p-value; beyond an
  infinite statistic the tail probability is 0, whatever the degrees of freedom.
\<close>

fun two_sided_p :: "(real \<Rightarrow> real \<Rightarrow> real) \<Rightarrow> fl \<Rightarrow> fl \<Rightarrow> fl" where
  "two_sided_p tail df NaN = NaN"
| "two_sided_p tail df PInf = Fin 0"
| "two_sided_p tail df NInf = Fin 0"
| "two_sided_p tail (Fin d) (Fin x) = Fin (tail d \<bar>x\<bar>)"
| "two_sided_p tail df (Fin x) = NaN"

text \<open>
  Modelled from the spec: \<open>scipy.stats.ttest_ind a b\<close> with \<open>equal_var=False\<close>, which
  is not part of the repository: the pair of Welch's statistic and its p-value for the two
  samples, in this order.
\<close>

definition ttest_ind :: "(real \<Rightarrow> real \<Rightarrow> real) \<Rightarrow> real list \<Rightarrow> real list \<Rightarrow> fl \<times> fl" where
  "ttest_ind tail a b =
     (let n1 = length a; n2 = length b;
          v1 = np_var 1 a; v2 = np_var 1 b;
          t = welch_t (np_mean a) v1 n1 (np_mean b) v2 n2
      in (t, two_sided_p tail (welch_df v1 n1 v2 n2) t))"

section \<open>The comparison of the two groups\<close>

text \<open>
  The dictionary of descriptive statistics of one gender, and the four values that
  \<open>perform_ttest\<close> returns when it does not return four times \<open>None\<close>.
\<close>

record gender_stats =
  Medelvarde :: fl
  Standardavvikelse :: fl
  Antal :: nat

record ttest_result =
  t_stat :: fl
  p_val :: fl
  stats_dict :: "string \<rightharpoonup> gender_stats"
  data_dict :: "string \<rightharpoonup> real list"

text \<open>The two warnings after which \<open>perform_ttest\<close> returns \<open>None, None, None, None\<close>.\<close>

datatype warning = too_few_participants | gender_missing

text \<open>
  \<open>perform_ttest\<close> (source lines 64 to 93). \<open>pd.to_numeric\<close> on line 70 leaves a
  float column as it is. The two value arrays keep the row order of the frame.
\<close>

definition perform_ttest :: "(real \<Rightarrow> real \<Rightarrow> real) \<Rightarrow> row list \<Rightarrow> warning + ttest_result" where
  "perform_ttest tail df =
     (if length df < 2 then Inl too_few_participants
      else
        let male_data = map Tid (filter (\<lambda>r. Kon r = ''Man'') df);
            female_data = map Tid (filter (\<lambda>r. Kon r = ''Kvinna'') df)
        in if length male_data = 0 \<or> length female_data = 0 then Inl gender_missing
           else
             let (t_stat, p_val) = ttest_ind tail male_data female_data;
                 male_mean = np_mean male_data;
                 female_mean = np_mean female_data;
                 male_std = np_std male_data;
                 female_std = np_std female_data
             in Inr \<lparr>t_stat = t_stat, p_val = p_val,
                  stats_dict =
                    [''Man'' \<mapsto> \<lparr>Medelvarde = male_mean, Standardavvikelse = male_std,
                                 Antal = length male_data\<rparr>,
                     ''Kvinna'' \<mapsto> \<lparr>Medelvarde = female_mean, Standardavvikelse = female_std,
                                    Antal = length female_data\<rparr>],
                  data_dict = [''Man'' \<mapsto> male_data, ''Kvinna'' \<mapsto> female_data]\<rparr>)"

section \<open>Notions of the specification\<close>

text \<open>The values of one group, in frame order: the selection of source lines 73 and 74.\<close>

definition group_values :: "string \<Rightarrow> row list \<Rightarrow> real list" where
  "group_values g df = map Tid (filter (\<lambda>r. Kon r = g) df)"

text \<open>Exchanging the two recognized labels, on one label and on every row of a frame.\<close>

definition other_label :: "string \<Rightarrow> string" where
  "other_label g = (if g = ''Man'' then ''Kvinna'' else if g = ''Kvinna'' then ''Man'' else g)"

definition swap_labels :: "row list \<Rightarrow> row list" where
  "swap_labels df = map (\<lambda>r. r\<lparr>Kon := other_label (Kon r)\<rparr>) df"

text \<open>
  The statistics in the words of the specification, over the real numbers: the arithmetic
  mean, the variance with Bessel's correction (divisor \<open>n - 1\<close>), the variance with
  divisor \<open>n\<close>, Welch's statistic and the Welch-Satterthwaite degrees of freedom.
\<close>

definition spec_mean :: "real list \<Rightarrow> real" where
  "spec_mean a = sum_list a / real (length a)"

definition spec_sample_var :: "real list \<Rightarrow> real" where
  "spec_sample_var a = (\<Sum>v\<leftarrow>a. (v - spec_mean a)\<^sup>2) / (real (length a) - 1)"

definition spec_population_var :: "real list \<Rightarrow> real" where
  "spec_population_var a = (\<Sum>v\<leftarrow>a. (v - spec_mean a)\<^sup>2) / real (length a)"

definition spec_welch_t :: "real list \<Rightarrow> real list \<Rightarrow> real" where
  "spec_welch_t a b =
     (spec_mean a - spec_mean b)
       / sqrt (spec_sample_var a / real (length a) + spec_sample_var b / real (length b))"

definition spec_welch_df :: "real list \<Rightarrow> real list \<Rightarrow> real" where
  "spec_welch_df a b =
     (spec_sample_var a / real (length a) + spec_sample_var b / real (length b))\<^sup>2
       / ((spec_sample_var a / real (length a))\<^sup>2 / (real (length a) - 1)
          + (spec_sample_var b / real (length b))\<^sup>2 / (real (length b) - 1))"

section \<open>Auxiliary facts\<close>

subsection \<open>Float arithmetic\<close>

lemma fl_sum_Fin: "fl_sum (map Fin xs) = Fin (sum_list xs)"
  by (induction xs) (simp_all add: fl_sum_def)

lemma fl_add_commute: "fl_add a b = fl_add b a"
  by (cases a; cases b) simp_all

lemma fl_neg_sub: "fl_neg (fl_sub a b) = fl_sub b a"
  by (cases a; cases b) (simp_all add: fl_sub_def)

lemma fl_div_neg: "fl_div (fl_neg a) b = fl_neg (fl_div a b)"
  by (cases a; cases b) (auto simp add: signed_inf_def)

lemma fl_add_NaN_right: "fl_add a NaN = NaN"
  by (cases a) simp_all

lemma fl_div_NaN_right: "fl_div a NaN = NaN"
  by (cases a) simp_all

subsection \<open>The library routines on non-degenerate and on singleton samples\<close>

lemma np_mean_nonempty: "a \<noteq> [] \<Longrightarrow> np_mean a = Fin (sum_list a / real (length a))"
  by (simp add: np_mean_def fl_sum_Fin)

lemma fl_sum_sq: "fl_sum (map (\<lambda>d. fl_mul d d) (map (\<lambda>v. fl_sub (Fin v) (Fin m)) a))
   = Fin (\<Sum>v\<leftarrow>a. (v - m)\<^sup>2)"
  by (induction a) (simp_all add: fl_sum_def fl_sub_def power2_eq_square)

lemma np_var_nonempty:
  "a \<noteq> [] \<Longrightarrow> np_var ddof a =
     fl_div (Fin (\<Sum>v\<leftarrow>a. (v - sum_list a / real (length a))\<^sup>2)) (Fin (real (length a - ddof)))"
  by (simp add: np_var_def np_mean_nonempty fl_sum_sq Let_def del: map_map fl_div.simps)

lemma np_mean_spec: "a \<noteq> [] \<Longrightarrow> np_mean a = Fin (spec_mean a)"
  by (simp add: np_mean_nonempty spec_mean_def)

lemma np_var1_spec: "2 \<le> length a \<Longrightarrow> np_var 1 a = Fin (spec_sample_var a)"
proof -
  assume len: "2 \<le> length a"
  then have ne: "a \<noteq> []" by auto
  from len have r: "real (length a - 1) = real (length a) - 1" by (simp add: of_nat_diff)
  from len have nz: "real (length a) - 1 \<noteq> 0" by simp
  show ?thesis
    unfolding np_var_nonempty [OF ne] r spec_sample_var_def spec_mean_def
    using nz by simp
qed

lemma np_var0_spec: "a \<noteq> [] \<Longrightarrow> np_var 0 a = Fin (spec_population_var a)"
  by (simp add: np_var_nonempty spec_population_var_def spec_mean_def)

lemma sum_sq_nonneg: "0 \<le> (\<Sum>v\<leftarrow>a. (v - m)\<^sup>2)" for m :: real
  by (rule sum_list_nonneg) auto

lemma spec_population_var_nonneg: "0 \<le> spec_population_var a"
  by (simp add: spec_population_var_def sum_sq_nonneg)

lemma spec_sample_var_nonneg: "2 \<le> length a \<Longrightarrow> 0 \<le> spec_sample_var a"
  by (simp add: spec_sample_var_def sum_sq_nonneg)

lemma np_std_spec: "a \<noteq> [] \<Longrightarrow> np_std a = Fin (sqrt (spec_population_var a))"
  using spec_population_var_nonneg [of a] by (simp add: np_std_def np_var0_spec)

lemma np_var1_singleton: "np_var 1 [x] = NaN"
  by (simp add: np_var_nonempty)

lemma np_std_singleton: "np_std [x] = Fin 0"
  by (simp add: np_std_def np_var_nonempty)

subsection \<open>The Welch test\<close>

lemma two_sided_p_neg: "two_sided_p tail df (fl_neg t) = two_sided_p tail df t"
  by (cases t; cases df) simp_all

lemma welch_t_swap:
  "welch_t m2 v2 n2 m1 v1 n1 = fl_neg (welch_t m1 v1 n1 m2 v2 n2)"
  by (simp add: welch_t_def fl_div_neg [symmetric] fl_neg_sub fl_add_commute)

lemma welch_df_swap: "welch_df v2 n2 v1 n1 = welch_df v1 n1 v2 n2"
  by (simp add: welch_df_def Let_def fl_add_commute)

lemma ttest_ind_swap:
  "ttest_ind tail b a = (fl_neg (fst (ttest_ind tail a b)), snd (ttest_ind tail a b))"
  unfolding ttest_ind_def Let_def
  by (simp only: welch_t_swap [of "np_mean b" _ _ "np_mean a"] two_sided_p_neg
        welch_df_swap [of "np_var 1 b" _ "np_var 1 a"] fst_conv snd_conv)

lemma welch_t_NaN_left: "welch_t m1 NaN n1 m2 v2 n2 = NaN"
  by (simp add: welch_t_def fl_div_NaN_right)

lemma welch_t_NaN_right: "welch_t m1 v1 n1 m2 NaN n2 = NaN"
  by (simp add: welch_t_def fl_div_NaN_right fl_add_NaN_right)

lemma ttest_ind_singleton_left: "fst (ttest_ind tail [x] b) = NaN \<and> snd (ttest_ind tail [x] b) = NaN"
  by (simp add: ttest_ind_def Let_def np_var1_singleton welch_t_NaN_left del: One_nat_def)

lemma ttest_ind_singleton_right: "fst (ttest_ind tail a [y]) = NaN \<and> snd (ttest_ind tail a [y]) = NaN"
  by (simp add: ttest_ind_def Let_def np_var1_singleton welch_t_NaN_right del: One_nat_def)

lemma welch_t_finite:
  assumes "0 < v1 / real n1 + v2 / real n2" and "n1 \<noteq> 0" and "n2 \<noteq> 0"
  shows "welch_t (Fin m1) (Fin v1) n1 (Fin m2) (Fin v2) n2
           = Fin ((m1 - m2) / sqrt (v1 / real n1 + v2 / real n2))"
  using assms by (simp add: welch_t_def fl_sub_def)

lemma welch_df_finite:
  assumes pos: "0 < v1 / real n1 + v2 / real n2" and v1: "0 \<le> v1" and v2: "0 \<le> v2"
    and n1: "2 \<le> n1" and n2: "2 \<le> n2"
  shows "welch_df (Fin v1) n1 (Fin v2) n2
           = Fin ((v1 / real n1 + v2 / real n2)\<^sup>2
                  / ((v1 / real n1)\<^sup>2 / (real n1 - 1) + (v2 / real n2)\<^sup>2 / (real n2 - 1)))"
proof -
  let ?q1 = "(v1 / real n1)\<^sup>2 / (real n1 - 1)" and ?q2 = "(v2 / real n2)\<^sup>2 / (real n2 - 1)"
  from n1 n2 have d: "0 < real n1 - 1" "0 < real n2 - 1" "0 < real n1" "0 < real n2" by simp_all
  have q: "0 \<le> ?q1" "0 \<le> ?q2" using d by simp_all
  have "0 < v1 \<or> 0 < v2"
  proof (rule ccontr)
    assume "\<not> (0 < v1 \<or> 0 < v2)"
    with v1 v2 have "v1 = 0" "v2 = 0" by simp_all
    with pos show False by simp
  qed
  then have "0 < ?q1 \<or> 0 < ?q2" using d by auto
  with q have nz: "?q1 + ?q2 \<noteq> 0" by linarith
  from d have nz1: "real n1 \<noteq> 0" "real n2 \<noteq> 0" "real n1 - 1 \<noteq> 0" "real n2 - 1 \<noteq> 0" by simp_all
  have e1: "fl_div (Fin v1) (Fin (real n1)) = Fin (v1 / real n1)"
    and e2: "fl_div (Fin v2) (Fin (real n2)) = Fin (v2 / real n2)"
    using nz1 by simp_all
  have s1: "fl_div (fl_mul (Fin (v1 / real n1)) (Fin (v1 / real n1))) (Fin (real n1 - 1)) = Fin ?q1"
    and s2: "fl_div (fl_mul (Fin (v2 / real n2)) (Fin (v2 / real n2))) (Fin (real n2 - 1)) = Fin ?q2"
    using nz1 by (simp_all add: power2_eq_square)
  have "welch_df (Fin v1) n1 (Fin v2) n2
      = fl_div (Fin ((v1 / real n1 + v2 / real n2)\<^sup>2)) (Fin (?q1 + ?q2))"
    unfolding welch_df_def Let_def e1 e2 s1 s2 by (simp add: power2_eq_square)
  also have "\<dots> = Fin ((v1 / real n1 + v2 / real n2)\<^sup>2 / (?q1 + ?q2))"
    using nz by simp
  finally show ?thesis .
qed

lemma ttest_ind_finite:
  assumes a: "2 \<le> length a" and b: "2 \<le> length b"
    and pos: "0 < spec_sample_var a / real (length a) + spec_sample_var b / real (length b)"
  shows "ttest_ind tail a b
           = (Fin (spec_welch_t a b), Fin (tail (spec_welch_df a b) \<bar>spec_welch_t a b\<bar>))"
proof -
  from a b have ne: "a \<noteq> []" "b \<noteq> []" by auto
  then have n0: "length a \<noteq> 0" "length b \<noteq> 0" by simp_all
  have t: "welch_t (np_mean a) (np_var 1 a) (length a) (np_mean b) (np_var 1 b) (length b)
             = Fin (spec_welch_t a b)"
    unfolding np_mean_spec [OF ne(1)] np_mean_spec [OF ne(2)] np_var1_spec [OF a] np_var1_spec [OF b]
      welch_t_finite [OF pos n0] spec_welch_t_def ..
  have d: "welch_df (np_var 1 a) (length a) (np_var 1 b) (length b) = Fin (spec_welch_df a b)"
    unfolding np_var1_spec [OF a] np_var1_spec [OF b]
      welch_df_finite [OF pos spec_sample_var_nonneg [OF a] spec_sample_var_nonneg [OF b] a b]
      spec_welch_df_def ..
  show ?thesis
    unfolding ttest_ind_def Let_def t d by simp
qed

subsection \<open>The result of the comparison\<close>

lemma perform_ttest_Inr:
  assumes "2 \<le> length df" and "group_values ''Man'' df \<noteq> []" and "group_values ''Kvinna'' df \<noteq> []"
  shows "perform_ttest tail df =
     Inr \<lparr>t_stat = fst (ttest_ind tail (group_values ''Man'' df) (group_values ''Kvinna'' df)),
          p_val = snd (ttest_ind tail (group_values ''Man'' df) (group_values ''Kvinna'' df)),
          stats_dict =
            [''Man'' \<mapsto> \<lparr>Medelvarde = np_mean (group_values ''Man'' df),
                          Standardavvikelse = np_std (group_values ''Man'' df),
                          Antal = length (group_values ''Man'' df)\<rparr>,
             ''Kvinna'' \<mapsto> \<lparr>Medelvarde = np_mean (group_values ''Kvinna'' df),
                             Standardavvikelse = np_std (group_values ''Kvinna'' df),
                             Antal = length (group_values ''Kvinna'' df)\<rparr>],
          data_dict = [''Man'' \<mapsto> group_values ''Man'' df,
                       ''Kvinna'' \<mapsto> group_values ''Kvinna'' df]\<rparr>"
  using assms
  by (simp add: perform_ttest_def group_values_def Let_def case_prod_beta)

lemma perform_ttest_InrD:
  assumes "perform_ttest tail df = Inr r"
  shows "2 \<le> length df \<and> group_values ''Man'' df \<noteq> [] \<and> group_values ''Kvinna'' df \<noteq> []"
  using assms
  by (auto simp add: perform_ttest_def group_values_def Let_def case_prod_beta split: if_splits)

lemma perform_ttest_stats:
  assumes "perform_ttest tail df = Inr r" and "recognized g"
  shows "stats_dict r g = Some \<lparr>Medelvarde = np_mean (group_values g df),
                                Standardavvikelse = np_std (group_values g df),
                                Antal = length (group_values g df)\<rparr>
       \<and> data_dict r g = Some (group_values g df)"
proof -
  from perform_ttest_InrD [OF assms(1)]
  have len: "2 \<le> length df" and a: "group_values ''Man'' df \<noteq> []"
    and b: "group_values ''Kvinna'' df \<noteq> []" by simp_all
  from assms(1) perform_ttest_Inr [OF len a b, of tail]
  have "r = \<lparr>t_stat = fst (ttest_ind tail (group_values ''Man'' df) (group_values ''Kvinna'' df)),
          p_val = snd (ttest_ind tail (group_values ''Man'' df) (group_values ''Kvinna'' df)),
          stats_dict =
            [''Man'' \<mapsto> \<lparr>Medelvarde = np_mean (group_values ''Man'' df),
                          Standardavvikelse = np_std (group_values ''Man'' df),
                          Antal = length (group_values ''Man'' df)\<rparr>,
             ''Kvinna'' \<mapsto> \<lparr>Medelvarde = np_mean (group_values ''Kvinna'' df),
                             Standardavvikelse = np_std (group_values ''Kvinna'' df),
                             Antal = length (group_values ''Kvinna'' df)\<rparr>],
          data_dict = [''Man'' \<mapsto> group_values ''Man'' df,
                       ''Kvinna'' \<mapsto> group_values ''Kvinna'' df]\<rparr>"
    by simp
  then show ?thesis using assms(2) by (auto simp add: recognized_def)
qed

lemma perform_ttest_tp:
  assumes "perform_ttest tail df = Inr r"
  shows "(t_stat r, p_val r) = ttest_ind tail (group_values ''Man'' df) (group_values ''Kvinna'' df)"
proof -
  from perform_ttest_InrD [OF assms]
  have len: "2 \<le> length df" and a: "group_values ''Man'' df \<noteq> []"
    and b: "group_values ''Kvinna'' df \<noteq> []" by simp_all
  from assms perform_ttest_Inr [OF len a b, of tail] show ?thesis by auto
qed

lemma group_values_swap:
  "recognized g \<Longrightarrow> group_values g (swap_labels df) = group_values (other_label g) df"
  by (induction df) (auto simp add: group_values_def swap_labels_def other_label_def recognized_def)

lemma length_swap_labels: "length (swap_labels df) = length df"
  by (simp add: swap_labels_def)

lemma sqrt_25_4: "sqrt (25 / 4) = 5 / 2"
  by (rule real_sqrt_unique) (simp_all add: power2_eq_square)

lemma sqrt_25_2_neq: "sqrt (25 / 2) \<noteq> 5 / 2"
proof
  assume h: "sqrt (25 / 2) = 5 / 2"
  have "(sqrt (25 / 2))\<^sup>2 = (25 / 2 :: real)" by (rule real_sqrt_pow2) simp
  then have "(5 / 2 :: real)\<^sup>2 = 25 / 2" unfolding h .
  then show False by (simp add: power2_eq_square)
qed

section \<open>The observation store\<close>

text \<open>
  C3. For every state and every input with a recognized label and a value in the inclusive
  range 0 to 300, \<open>add_data\<close> succeeds: the stored row carries the counter value from
  before the call as its number, the counter grows by one, and the frame grows by exactly
  one row, the new one last, the earlier rows untouched and in order.
\<close>

theorem add_data_valid:
  assumes "recognized gender" and "0 \<le> time_sec" and "time_sec \<le> 300"
  shows "fst (add_data gender time_sec s) = added_shown (counter s)
       \<and> counter (snd (add_data gender time_sec s)) = counter s + 1
       \<and> length (data (snd (add_data gender time_sec s))) = length (data s) + 1
       \<and> data (snd (add_data gender time_sec s))
           = data s @ [\<lparr>Deltagare = counter s, Kon = gender, Tid = of_int time_sec\<rparr>]
       \<and> Deltagare (last (data (snd (add_data gender time_sec s)))) = counter s"
  using assms by (auto simp add: add_data_def recognized_def Let_def)

theorem add_data_valid_witness:
  "recognized ''Man'' \<and> (0::int) \<le> 45 \<and> (45::int) \<le> 300
   \<and> fst (add_data ''Man'' 45 init_state) = added_shown 1
   \<and> counter (snd (add_data ''Man'' 45 init_state)) = 2
   \<and> data (snd (add_data ''Man'' 45 init_state)) = [\<lparr>Deltagare = 1, Kon = ''Man'', Tid = 45\<rparr>]"
  using add_data_valid [of "''Man''" 45 init_state]
  by (simp add: recognized_def init_state_def)

text \<open>
  C4. For every state and every input whose value is below 0 or above 300, or whose label
  is the empty string, \<open>add_data\<close> shows the validation error and leaves the whole state
  (rows and counter) as it was.
\<close>

theorem add_data_invalid:
  assumes "time_sec < 0 \<or> time_sec > 300 \<or> gender = []"
  shows "add_data gender time_sec s = (error_shown, s)"
  using assms by (auto simp add: add_data_def)

theorem add_data_invalid_witness:
  "((1000::int) < 0 \<or> (1000::int) > 300 \<or> ''Man'' = [])
   \<and> add_data ''Man'' 1000 init_state = (error_shown, init_state)"
  using add_data_invalid [of 1000 "''Man''" init_state] by simp

text \<open>
  C5 does not hold as stated. The guard of \<open>add_data\<close> compares the label with the empty
  string only: the label \<open>''Other''\<close>, which is non-empty and not recognized, is stored
  with the value 10, and the state changes.
\<close>

theorem add_data_unrecognized_counterexample:
  "\<not> recognized ''Other'' \<and> ''Other'' \<noteq> []
   \<and> fst (add_data ''Other'' 10 init_state) \<noteq> error_shown
   \<and> snd (add_data ''Other'' 10 init_state) \<noteq> init_state
   \<and> data (snd (add_data ''Other'' 10 init_state))
       = [\<lparr>Deltagare = 1, Kon = ''Other'', Tid = 10\<rparr>]"
  by (simp add: add_data_def recognized_def init_state_def Let_def)

text \<open>
  C5, as the code has it. A non-empty label that is not one of the two recognized ones is
  stored like any other when the value is in the range 0 to 300: the row is appended under
  that label and the counter is incremented. Only the radio widget of the form, which
  offers the two recognized labels and nothing else, keeps such labels out.
\<close>

theorem add_data_unrecognized_accepted:
  assumes "gender \<noteq> []" and "\<not> recognized gender" and "0 \<le> time_sec" and "time_sec \<le> 300"
  shows "add_data gender time_sec s
       = (added_shown (counter s),
          s\<lparr>data := data s @ [\<lparr>Deltagare = counter s, Kon = gender, Tid = of_int time_sec\<rparr>],
            counter := counter s + 1\<rparr>)"
  using assms by (simp add: add_data_def Let_def)

theorem add_data_unrecognized_accepted_witness:
  "''Other'' \<noteq> [] \<and> \<not> recognized ''Other'' \<and> (0::int) \<le> 10 \<and> (10::int) \<le> 300
   \<and> add_data ''Other'' 10 init_state
       = (added_shown 1, \<lparr>data = [\<lparr>Deltagare = 1, Kon = ''Other'', Tid = 10\<rparr>], counter = 2\<rparr>)"
  using add_data_unrecognized_accepted [of "''Other''" 10 init_state]
  by (simp add: recognized_def init_state_def)

text \<open>
  C6. For every state, \<open>reset_data\<close> succeeds, leaves no row and sets the counter to 1;
  so the next valid row added after a reset has the number 1, whatever was added before.
  The witness is scenario D: three rows, a reset, and a fourth row that is numbered 1, not 4.
\<close>

theorem reset_data_clears:
  "fst (reset_data s) = reset_shown
   \<and> data (snd (reset_data s)) = []
   \<and> counter (snd (reset_data s)) = 1
   \<and> (recognized g \<and> 0 \<le> t \<and> t \<le> 300 \<longrightarrow>
        data (snd (add_data g t (snd (reset_data s))))
          = [\<lparr>Deltagare = 1, Kon = g, Tid = of_int t\<rparr>])"
  by (auto simp add: reset_data_def add_data_def recognized_def Let_def)

theorem reset_data_clears_witness:
  "recognized ''Kvinna'' \<and> (0::int) \<le> 40 \<and> (40::int) \<le> 300
   \<and> counter (snd (add_data ''Man'' 30 (snd (add_data ''Kvinna'' 20
        (snd (add_data ''Man'' 10 init_state)))))) = 4
   \<and> data (snd (add_data ''Kvinna'' 40 (snd (reset_data
        (snd (add_data ''Man'' 30 (snd (add_data ''Kvinna'' 20
          (snd (add_data ''Man'' 10 init_state))))))))))
       = [\<lparr>Deltagare = 1, Kon = ''Kvinna'', Tid = 40\<rparr>]"
  using reset_data_clears [of "snd (add_data ''Man'' 30 (snd (add_data ''Kvinna'' 20
        (snd (add_data ''Man'' 10 init_state)))))" "''Kvinna''" 40]
  by (simp add: recognized_def add_data_def init_state_def Let_def)

section \<open>The comparison\<close>

text \<open>
  C7. \<open>perform_ttest\<close> returns without a result exactly when the frame has fewer than
  two rows or one of the two recognized labels has no row; the first warning is given
  exactly when there are fewer than two rows, the second exactly when there are at least two
  rows and a label is missing; in every other case a result is returned.
\<close>

theorem perform_ttest_fails_iff:
  "((\<exists>w. perform_ttest tail df = Inl w) \<longleftrightarrow>
      (length df < 2 \<or> \<not> (\<exists>r\<in>set df. Kon r = ''Man'') \<or> \<not> (\<exists>r\<in>set df. Kon r = ''Kvinna'')))
   \<and> (perform_ttest tail df = Inl too_few_participants \<longleftrightarrow> length df < 2)
   \<and> (perform_ttest tail df = Inl gender_missing \<longleftrightarrow>
        (2 \<le> length df \<and> (\<not> (\<exists>r\<in>set df. Kon r = ''Man'') \<or> \<not> (\<exists>r\<in>set df. Kon r = ''Kvinna''))))
   \<and> ((\<exists>r. perform_ttest tail df = Inr r) \<longleftrightarrow>
        (2 \<le> length df \<and> (\<exists>r\<in>set df. Kon r = ''Man'') \<and> (\<exists>r\<in>set df. Kon r = ''Kvinna'')))"
  by (auto simp add: perform_ttest_def Let_def case_prod_beta filter_empty_conv)

theorem perform_ttest_fails_iff_witness:
  "\<forall>tail. (\<exists>r. perform_ttest tail
      [\<lparr>Deltagare = 1, Kon = ''Man'', Tid = 45\<rparr>, \<lparr>Deltagare = 2, Kon = ''Kvinna'', Tid = 80\<rparr>] = Inr r)
     \<and> perform_ttest tail [\<lparr>Deltagare = 1, Kon = ''Man'', Tid = 45\<rparr>] = Inl too_few_participants
     \<and> perform_ttest tail [] = Inl too_few_participants
     \<and> perform_ttest tail
         [\<lparr>Deltagare = 1, Kon = ''Man'', Tid = 45\<rparr>, \<lparr>Deltagare = 2, Kon = ''Man'', Tid = 50\<rparr>]
         = Inl gender_missing"
proof
  fix tail
  show "(\<exists>r. perform_ttest tail
      [\<lparr>Deltagare = 1, Kon = ''Man'', Tid = 45\<rparr>, \<lparr>Deltagare = 2, Kon = ''Kvinna'', Tid = 80\<rparr>] = Inr r)
     \<and> perform_ttest tail [\<lparr>Deltagare = 1, Kon = ''Man'', Tid = 45\<rparr>] = Inl too_few_participants
     \<and> perform_ttest tail [] = Inl too_few_participants
     \<and> perform_ttest tail
         [\<lparr>Deltagare = 1, Kon = ''Man'', Tid = 45\<rparr>, \<lparr>Deltagare = 2, Kon = ''Man'', Tid = 50\<rparr>]
         = Inl gender_missing"
    using perform_ttest_fails_iff [of tail
        "[\<lparr>Deltagare = 1, Kon = ''Man'', Tid = 45\<rparr>, \<lparr>Deltagare = 2, Kon = ''Kvinna'', Tid = 80\<rparr>]"]
      perform_ttest_fails_iff [of tail "[\<lparr>Deltagare = 1, Kon = ''Man'', Tid = 45\<rparr>]"]
      perform_ttest_fails_iff [of tail "[]"]
      perform_ttest_fails_iff [of tail
        "[\<lparr>Deltagare = 1, Kon = ''Man'', Tid = 45\<rparr>, \<lparr>Deltagare = 2, Kon = ''Man'', Tid = 50\<rparr>]"]
    by simp
qed

text \<open>
  C1 does not hold as stated. \<open>.std()\<close> of a numpy array divides by \<open>n\<close>, not by
  \<open>n - 1\<close>. On the frame with the times 45 and 50 for the first label and 80 and 90 for
  the second, the reported standard deviation of the first group, which has two members, is
  \<open>5/2\<close>; the sample variance with Bessel's correction is \<open>25/2\<close>, and its square
  root is not \<open>5/2\<close>.
\<close>

theorem reported_std_counterexample:
  "\<forall>tail. \<exists>r st. perform_ttest tail
      [\<lparr>Deltagare = 1, Kon = ''Man'', Tid = 45\<rparr>, \<lparr>Deltagare = 2, Kon = ''Man'', Tid = 50\<rparr>,
       \<lparr>Deltagare = 3, Kon = ''Kvinna'', Tid = 80\<rparr>, \<lparr>Deltagare = 4, Kon = ''Kvinna'', Tid = 90\<rparr>]
        = Inr r
     \<and> stats_dict r ''Man'' = Some st \<and> Antal st = 2 \<and> data_dict r ''Man'' = Some [45, 50]
     \<and> Standardavvikelse st = Fin (5 / 2)
     \<and> spec_sample_var [45, 50] = 25 / 2
     \<and> Standardavvikelse st \<noteq> Fin (sqrt (spec_sample_var [45, 50]))"
proof
  fix tail
  let ?df = "[\<lparr>Deltagare = 1, Kon = ''Man'', Tid = 45\<rparr>, \<lparr>Deltagare = 2, Kon = ''Man'', Tid = 50\<rparr>,
       \<lparr>Deltagare = 3, Kon = ''Kvinna'', Tid = 80\<rparr>, \<lparr>Deltagare = 4, Kon = ''Kvinna'', Tid = 90\<rparr>]"
  let ?st = "\<lparr>Medelvarde = np_mean [45, 50], Standardavvikelse = Fin (5 / 2), Antal = 2\<rparr>"
  have ga: "group_values ''Man'' ?df = [45, 50]" and gb: "group_values ''Kvinna'' ?df = [80, 90]"
    by (simp_all add: group_values_def)
  have sv: "spec_sample_var [45, 50] = 25 / 2"
    by (simp add: spec_sample_var_def spec_mean_def power2_eq_square)
  have pv: "spec_population_var [45, 50] = 25 / 4"
    by (simp add: spec_population_var_def spec_mean_def power2_eq_square)
  have sd: "np_std [45, 50] = Fin (5 / 2)"
    using np_std_spec [of "[45, 50]"] by (simp add: pv sqrt_25_4)
  from perform_ttest_Inr [of ?df tail] ga gb
  obtain r where c1: "perform_ttest tail ?df = Inr r" by auto
  from perform_ttest_stats [OF c1, of "''Man''"]
  have c2: "stats_dict r ''Man'' = Some ?st" and c4: "data_dict r ''Man'' = Some [45, 50]"
    by (simp_all add: recognized_def ga sd)
  have c3: "Antal ?st = 2" and c5: "Standardavvikelse ?st = Fin (5 / 2)" by simp_all
  have c7: "Standardavvikelse ?st \<noteq> Fin (sqrt (spec_sample_var [45, 50]))"
    unfolding sv using sqrt_25_2_neq by simp
  from c1 c2 c3 c4 c5 sv c7
  show "\<exists>r st. perform_ttest tail ?df = Inr r
     \<and> stats_dict r ''Man'' = Some st \<and> Antal st = 2 \<and> data_dict r ''Man'' = Some [45, 50]
     \<and> Standardavvikelse st = Fin (5 / 2)
     \<and> spec_sample_var [45, 50] = 25 / 2
     \<and> Standardavvikelse st \<noteq> Fin (sqrt (spec_sample_var [45, 50]))"
    by blast
qed

text \<open>
  C1, as the code has it. For every result and each of the two recognized labels, the
  reported count is the number of values of that group, and the reported standard deviation
  is the population standard deviation of these values: the square root of the sum of the
  squared deviations from their mean, divided by their number \<open>n\<close> (not \<open>n - 1\<close>).
\<close>

theorem reported_std_is_population_std:
  assumes "perform_ttest tail df = Inr r" and "recognized g"
  shows "\<exists>st vs. stats_dict r g = Some st \<and> data_dict r g = Some vs
           \<and> vs = map Tid (filter (\<lambda>x. Kon x = g) df)
           \<and> Antal st = length vs
           \<and> Standardavvikelse st
               = Fin (sqrt ((\<Sum>v\<leftarrow>vs. (v - sum_list vs / real (length vs))\<^sup>2) / real (length vs)))"
proof -
  from perform_ttest_InrD [OF assms(1)] assms(2)
  have ne: "group_values g df \<noteq> []" by (auto simp add: recognized_def)
  show ?thesis
    using perform_ttest_stats [OF assms] np_std_spec [OF ne]
    by (simp add: group_values_def spec_population_var_def spec_mean_def)
qed

theorem reported_std_is_population_std_witness:
  "\<forall>tail. \<exists>r st. perform_ttest tail
      [\<lparr>Deltagare = 1, Kon = ''Man'', Tid = 45\<rparr>, \<lparr>Deltagare = 2, Kon = ''Man'', Tid = 50\<rparr>,
       \<lparr>Deltagare = 3, Kon = ''Kvinna'', Tid = 80\<rparr>, \<lparr>Deltagare = 4, Kon = ''Kvinna'', Tid = 90\<rparr>]
        = Inr r
     \<and> recognized ''Kvinna''
     \<and> stats_dict r ''Kvinna'' = Some st \<and> Antal st = 2
     \<and> Standardavvikelse st = Fin (sqrt 25)"
proof
  fix tail
  let ?df = "[\<lparr>Deltagare = 1, Kon = ''Man'', Tid = 45\<rparr>, \<lparr>Deltagare = 2, Kon = ''Man'', Tid = 50\<rparr>,
       \<lparr>Deltagare = 3, Kon = ''Kvinna'', Tid = 80\<rparr>, \<lparr>Deltagare = 4, Kon = ''Kvinna'', Tid = 90\<rparr>]"
  have ga: "group_values ''Man'' ?df = [45, 50]" and gb: "group_values ''Kvinna'' ?df = [80, 90]"
    by (simp_all add: group_values_def)
  from perform_ttest_Inr [of ?df tail] ga gb
  obtain r where r: "perform_ttest tail ?df = Inr r" by auto
  have k: "recognized ''Kvinna''" by (simp add: recognized_def)
  from reported_std_is_population_std [OF r k] r k
  show "\<exists>r st. perform_ttest tail ?df = Inr r
     \<and> recognized ''Kvinna''
     \<and> stats_dict r ''Kvinna'' = Some st \<and> Antal st = 2
     \<and> Standardavvikelse st = Fin (sqrt 25)"
    by (auto simp add: power2_eq_square)
qed

text \<open>
  C2. Whenever \<open>perform_ttest\<close> returns a result, its t statistic is the difference of
  the two group means divided by the square root of \<open>var1/n1 + var2/n2\<close>, with the
  sample variances of the two groups, and its p-value is the two-sided tail probability of
  the absolute value of the statistic under Student's t distribution with the
  Welch-Satterthwaite degrees of freedom, all evaluated in float arithmetic. Where both
  groups have at least two members and \<open>var1/n1 + var2/n2\<close> is positive, both are
  finite and are the real numbers given by the formulas of the specification.
\<close>

theorem perform_ttest_welch:
  assumes "perform_ttest tail df = Inr r"
  shows "t_stat r
           = fl_div (fl_sub (np_mean (group_values ''Man'' df)) (np_mean (group_values ''Kvinna'' df)))
               (fl_sqrt (fl_add
                  (fl_div (np_var 1 (group_values ''Man'' df))
                     (Fin (real (length (group_values ''Man'' df)))))
                  (fl_div (np_var 1 (group_values ''Kvinna'' df))
                     (Fin (real (length (group_values ''Kvinna'' df)))))))
       \<and> p_val r
           = two_sided_p tail
               (welch_df (np_var 1 (group_values ''Man'' df)) (length (group_values ''Man'' df))
                  (np_var 1 (group_values ''Kvinna'' df)) (length (group_values ''Kvinna'' df)))
               (t_stat r)
       \<and> (2 \<le> length (group_values ''Man'' df) \<and> 2 \<le> length (group_values ''Kvinna'' df)
            \<and> 0 < spec_sample_var (group_values ''Man'' df) / real (length (group_values ''Man'' df))
                   + spec_sample_var (group_values ''Kvinna'' df)
                       / real (length (group_values ''Kvinna'' df))
          \<longrightarrow> t_stat r = Fin (spec_welch_t (group_values ''Man'' df) (group_values ''Kvinna'' df))
              \<and> p_val r = Fin (tail (spec_welch_df (group_values ''Man'' df) (group_values ''Kvinna'' df))
                                \<bar>spec_welch_t (group_values ''Man'' df) (group_values ''Kvinna'' df)\<bar>))"
proof -
  let ?a = "group_values ''Man'' df" and ?b = "group_values ''Kvinna'' df"
  have tp: "(t_stat r, p_val r) = ttest_ind tail ?a ?b"
    by (rule perform_ttest_tp [OF assms])
  then have t: "t_stat r = fst (ttest_ind tail ?a ?b)" and p: "p_val r = snd (ttest_ind tail ?a ?b)"
    by (metis fst_conv, metis snd_conv)
  have 1: "t_stat r = fl_div (fl_sub (np_mean ?a) (np_mean ?b))
               (fl_sqrt (fl_add (fl_div (np_var 1 ?a) (Fin (real (length ?a))))
                  (fl_div (np_var 1 ?b) (Fin (real (length ?b))))))"
    unfolding t ttest_ind_def Let_def welch_t_def by simp
  have 2: "p_val r = two_sided_p tail
               (welch_df (np_var 1 ?a) (length ?a) (np_var 1 ?b) (length ?b)) (t_stat r)"
    unfolding t p ttest_ind_def Let_def by simp
  have 3: "t_stat r = Fin (spec_welch_t ?a ?b)
         \<and> p_val r = Fin (tail (spec_welch_df ?a ?b) \<bar>spec_welch_t ?a ?b\<bar>)"
    if "2 \<le> length ?a" "2 \<le> length ?b"
       "0 < spec_sample_var ?a / real (length ?a) + spec_sample_var ?b / real (length ?b)"
    unfolding t p ttest_ind_finite [OF that] by simp
  from 1 2 3 show ?thesis by blast
qed

theorem perform_ttest_welch_witness:
  "\<forall>tail. \<exists>r. perform_ttest tail
      [\<lparr>Deltagare = 1, Kon = ''Man'', Tid = 45\<rparr>, \<lparr>Deltagare = 2, Kon = ''Man'', Tid = 50\<rparr>,
       \<lparr>Deltagare = 3, Kon = ''Kvinna'', Tid = 80\<rparr>, \<lparr>Deltagare = 4, Kon = ''Kvinna'', Tid = 90\<rparr>]
        = Inr r
     \<and> (2::nat) \<le> length [45, 50 :: real] \<and> (2::nat) \<le> length [80, 90 :: real]
     \<and> 0 < spec_sample_var [45, 50] / real (length [45, 50 :: real])
            + spec_sample_var [80, 90] / real (length [80, 90 :: real])
     \<and> t_stat r = Fin (spec_welch_t [45, 50] [80, 90])
     \<and> p_val r = Fin (tail (spec_welch_df [45, 50] [80, 90]) \<bar>spec_welch_t [45, 50] [80, 90]\<bar>)"
proof
  fix tail
  let ?df = "[\<lparr>Deltagare = 1, Kon = ''Man'', Tid = 45\<rparr>, \<lparr>Deltagare = 2, Kon = ''Man'', Tid = 50\<rparr>,
       \<lparr>Deltagare = 3, Kon = ''Kvinna'', Tid = 80\<rparr>, \<lparr>Deltagare = 4, Kon = ''Kvinna'', Tid = 90\<rparr>]"
  have ga: "group_values ''Man'' ?df = [45, 50]" and gb: "group_values ''Kvinna'' ?df = [80, 90]"
    by (simp_all add: group_values_def)
  have va: "spec_sample_var [45, 50] = 25 / 2" and vb: "spec_sample_var [80, 90] = 50"
    by (simp_all add: spec_sample_var_def spec_mean_def power2_eq_square)
  have pos: "0 < spec_sample_var [45, 50] / real (length [45, 50 :: real])
               + spec_sample_var [80, 90] / real (length [80, 90 :: real])"
    by (simp add: va vb)
  from perform_ttest_Inr [of ?df tail] ga gb
  obtain r where r: "perform_ttest tail ?df = Inr r" by auto
  from conjunct2 [OF conjunct2 [OF perform_ttest_welch [OF r]]] pos
  have "t_stat r = Fin (spec_welch_t [45, 50] [80, 90])
     \<and> p_val r = Fin (tail (spec_welch_df [45, 50] [80, 90]) \<bar>spec_welch_t [45, 50] [80, 90]\<bar>)"
    unfolding ga gb by simp
  with r pos
  show "\<exists>r. perform_ttest tail ?df = Inr r
     \<and> (2::nat) \<le> length [45, 50 :: real] \<and> (2::nat) \<le> length [80, 90 :: real]
     \<and> 0 < spec_sample_var [45, 50] / real (length [45, 50 :: real])
            + spec_sample_var [80, 90] / real (length [80, 90 :: real])
     \<and> t_stat r = Fin (spec_welch_t [45, 50] [80, 90])
     \<and> p_val r = Fin (tail (spec_welch_df [45, 50] [80, 90]) \<bar>spec_welch_t [45, 50] [80, 90]\<bar>)"
    by simp
qed

text \<open>
  C8. Whenever \<open>perform_ttest\<close> returns a result on a frame, it returns one on the frame
  with the two recognized labels exchanged on every row, with the negated t statistic and
  the same p-value.
\<close>

theorem perform_ttest_swap:
  assumes "perform_ttest tail df = Inr r"
  shows "\<exists>r'. perform_ttest tail (swap_labels df) = Inr r'
           \<and> t_stat r' = fl_neg (t_stat r) \<and> p_val r' = p_val r"
proof -
  let ?a = "group_values ''Man'' df" and ?b = "group_values ''Kvinna'' df"
  from perform_ttest_InrD [OF assms]
  have len: "2 \<le> length df" and a: "?a \<noteq> []" and b: "?b \<noteq> []" by simp_all
  have sa: "group_values ''Man'' (swap_labels df) = ?b"
    and sb: "group_values ''Kvinna'' (swap_labels df) = ?a"
    by (simp_all add: group_values_swap recognized_def other_label_def)
  have r: "t_stat r = fst (ttest_ind tail ?a ?b)" "p_val r = snd (ttest_ind tail ?a ?b)"
    using assms perform_ttest_Inr [OF len a b, of tail] by auto
  have "perform_ttest tail (swap_labels df) =
     Inr \<lparr>t_stat = fst (ttest_ind tail ?b ?a), p_val = snd (ttest_ind tail ?b ?a),
          stats_dict =
            [''Man'' \<mapsto> \<lparr>Medelvarde = np_mean ?b, Standardavvikelse = np_std ?b, Antal = length ?b\<rparr>,
             ''Kvinna'' \<mapsto> \<lparr>Medelvarde = np_mean ?a, Standardavvikelse = np_std ?a, Antal = length ?a\<rparr>],
          data_dict = [''Man'' \<mapsto> ?b, ''Kvinna'' \<mapsto> ?a]\<rparr>"
    using perform_ttest_Inr [of "swap_labels df" tail] len a b
    by (simp add: sa sb length_swap_labels)
  then show ?thesis
    by (simp add: r ttest_ind_swap [of tail ?b ?a])
qed

theorem perform_ttest_swap_witness:
  "\<forall>tail. \<exists>r r'. perform_ttest tail
      [\<lparr>Deltagare = 1, Kon = ''Man'', Tid = 45\<rparr>, \<lparr>Deltagare = 2, Kon = ''Man'', Tid = 50\<rparr>,
       \<lparr>Deltagare = 3, Kon = ''Kvinna'', Tid = 80\<rparr>, \<lparr>Deltagare = 4, Kon = ''Kvinna'', Tid = 90\<rparr>] = Inr r
     \<and> perform_ttest tail
      [\<lparr>Deltagare = 1, Kon = ''Kvinna'', Tid = 45\<rparr>, \<lparr>Deltagare = 2, Kon = ''Kvinna'', Tid = 50\<rparr>,
       \<lparr>Deltagare = 3, Kon = ''Man'', Tid = 80\<rparr>, \<lparr>Deltagare = 4, Kon = ''Man'', Tid = 90\<rparr>] = Inr r'
     \<and> t_stat r' = fl_neg (t_stat r) \<and> p_val r' = p_val r"
proof
  fix tail
  let ?df = "[\<lparr>Deltagare = 1, Kon = ''Man'', Tid = 45\<rparr>, \<lparr>Deltagare = 2, Kon = ''Man'', Tid = 50\<rparr>,
       \<lparr>Deltagare = 3, Kon = ''Kvinna'', Tid = 80\<rparr>, \<lparr>Deltagare = 4, Kon = ''Kvinna'', Tid = 90\<rparr>]"
  have "2 \<le> length ?df" "group_values ''Man'' ?df \<noteq> []" "group_values ''Kvinna'' ?df \<noteq> []"
    by (simp_all add: group_values_def)
  from perform_ttest_Inr [OF this, of tail]
  obtain r where r: "perform_ttest tail ?df = Inr r" by blast
  have sw: "swap_labels ?df =
      [\<lparr>Deltagare = 1, Kon = ''Kvinna'', Tid = 45\<rparr>, \<lparr>Deltagare = 2, Kon = ''Kvinna'', Tid = 50\<rparr>,
       \<lparr>Deltagare = 3, Kon = ''Man'', Tid = 80\<rparr>, \<lparr>Deltagare = 4, Kon = ''Man'', Tid = 90\<rparr>]"
    by (simp add: swap_labels_def other_label_def)
  from perform_ttest_swap [OF r] r
  show "\<exists>r r'. perform_ttest tail ?df = Inr r
     \<and> perform_ttest tail
      [\<lparr>Deltagare = 1, Kon = ''Kvinna'', Tid = 45\<rparr>, \<lparr>Deltagare = 2, Kon = ''Kvinna'', Tid = 50\<rparr>,
       \<lparr>Deltagare = 3, Kon = ''Man'', Tid = 80\<rparr>, \<lparr>Deltagare = 4, Kon = ''Man'', Tid = 90\<rparr>] = Inr r'
     \<and> t_stat r' = fl_neg (t_stat r) \<and> p_val r' = p_val r"
    unfolding sw by blast
qed

text \<open>
  C9. Scenario A: after adding 45 and 50 under the first label and 80 and 90 under the
  second to the initial state, \<open>perform_ttest\<close> on the stored frame returns a result
  with the group means \<open>47.5\<close> and 85, the counts 2 and 2, and a finite t statistic and
  a finite p-value (the statistic is \<open>-37.5 / sqrt 31.25\<close>, with \<open>25/17\<close> degrees
  of freedom).
\<close>

theorem scenario_A:
  "\<exists>r m k.
     data (snd (add_data ''Kvinna'' 90 (snd (add_data ''Kvinna'' 80
       (snd (add_data ''Man'' 50 (snd (add_data ''Man'' 45 init_state)))))))) =
       [\<lparr>Deltagare = 1, Kon = ''Man'', Tid = 45\<rparr>, \<lparr>Deltagare = 2, Kon = ''Man'', Tid = 50\<rparr>,
        \<lparr>Deltagare = 3, Kon = ''Kvinna'', Tid = 80\<rparr>, \<lparr>Deltagare = 4, Kon = ''Kvinna'', Tid = 90\<rparr>]
   \<and> perform_ttest tail (data (snd (add_data ''Kvinna'' 90 (snd (add_data ''Kvinna'' 80
       (snd (add_data ''Man'' 50 (snd (add_data ''Man'' 45 init_state))))))))) = Inr r
   \<and> stats_dict r ''Man'' = Some m \<and> stats_dict r ''Kvinna'' = Some k
   \<and> Medelvarde m = Fin (95 / 2) \<and> Medelvarde k = Fin 85
   \<and> Antal m = 2 \<and> Antal k = 2
   \<and> t_stat r = Fin (- (75 / 2) / sqrt (125 / 4))
   \<and> p_val r = Fin (tail (25 / 17) \<bar>- (75 / 2) / sqrt (125 / 4)\<bar>)
   \<and> is_finite (t_stat r) \<and> is_finite (p_val r)"
proof -
  let ?df = "[\<lparr>Deltagare = 1, Kon = ''Man'', Tid = 45\<rparr>, \<lparr>Deltagare = 2, Kon = ''Man'', Tid = 50\<rparr>,
        \<lparr>Deltagare = 3, Kon = ''Kvinna'', Tid = 80\<rparr>, \<lparr>Deltagare = 4, Kon = ''Kvinna'', Tid = 90\<rparr>]"
  have d: "data (snd (add_data ''Kvinna'' 90 (snd (add_data ''Kvinna'' 80
       (snd (add_data ''Man'' 50 (snd (add_data ''Man'' 45 init_state)))))))) = ?df"
    by (simp add: add_data_def init_state_def Let_def)
  have ga: "group_values ''Man'' ?df = [45, 50]" and gb: "group_values ''Kvinna'' ?df = [80, 90]"
    by (simp_all add: group_values_def)
  have len: "2 \<le> length ?df" by simp
  from perform_ttest_Inr [of ?df tail] ga gb
  obtain r where r: "perform_ttest tail ?df = Inr r" by auto
  have ma: "spec_mean [45, 50] = 95 / 2" and mb: "spec_mean [80, 90] = 85"
    by (simp_all add: spec_mean_def)
  have va: "spec_sample_var [45, 50] = 25 / 2" and vb: "spec_sample_var [80, 90] = 50"
    by (simp_all add: spec_sample_var_def spec_mean_def power2_eq_square)
  have wt: "spec_welch_t [45, 50] [80, 90] = - (75 / 2) / sqrt (125 / 4)"
    by (simp add: spec_welch_t_def ma mb va vb)
  have wd: "spec_welch_df [45, 50] [80, 90] = 25 / 17"
    by (simp add: spec_welch_df_def va vb power2_eq_square)
  have pos: "0 < spec_sample_var [45, 50] / real (length [45, 50 :: real])
               + spec_sample_var [80, 90] / real (length [80, 90 :: real])"
    by (simp add: va vb)
  have tt: "ttest_ind tail [45, 50] [80, 90]
      = (Fin (- (75 / 2) / sqrt (125 / 4)), Fin (tail (25 / 17) \<bar>- (75 / 2) / sqrt (125 / 4)\<bar>))"
    using ttest_ind_finite [OF _ _ pos, of tail] by (simp add: wt wd)
  from perform_ttest_tp [OF r] have tp: "t_stat r = Fin (- (75 / 2) / sqrt (125 / 4))"
    "p_val r = Fin (tail (25 / 17) \<bar>- (75 / 2) / sqrt (125 / 4)\<bar>)"
    unfolding ga gb tt by simp_all
  from perform_ttest_stats [OF r, of "''Man''"] perform_ttest_stats [OF r, of "''Kvinna''"]
  have st: "stats_dict r ''Man'' = Some \<lparr>Medelvarde = Fin (95 / 2),
               Standardavvikelse = np_std [45, 50], Antal = 2\<rparr>"
    "stats_dict r ''Kvinna'' = Some \<lparr>Medelvarde = Fin 85,
               Standardavvikelse = np_std [80, 90], Antal = 2\<rparr>"
    by (simp_all add: recognized_def ga gb np_mean_spec ma mb)
  show ?thesis
    unfolding d using r st tp by simp
qed

text \<open>
  C10. For every frame with at least two rows in which one recognized label has exactly one
  row and the other label has at least one, \<open>perform_ttest\<close> returns a result: the
  reported standard deviation of the group with one member is 0, and the t statistic and
  the p-value are NaN.
\<close>

theorem perform_ttest_singleton:
  assumes "2 \<le> length df" and "recognized g"
    and "length (filter (\<lambda>x. Kon x = g) df) = 1"
    and "\<exists>x\<in>set df. Kon x = other_label g"
  shows "\<exists>r st. perform_ttest tail df = Inr r
           \<and> stats_dict r g = Some st \<and> Antal st = 1
           \<and> Standardavvikelse st = Fin 0
           \<and> t_stat r = NaN \<and> p_val r = NaN"
proof -
  from assms(3) have lg: "length (group_values g df) = 1" by (simp add: group_values_def)
  then obtain x where gx: "group_values g df = [x]"
    by (cases "group_values g df") auto
  from assms(4) have "filter (\<lambda>x. Kon x = other_label g) df \<noteq> []"
    by (simp add: filter_empty_conv)
  then have og: "group_values (other_label g) df \<noteq> []" by (simp add: group_values_def)
  from assms(2) gx og
  have a: "group_values ''Man'' df \<noteq> []" and b: "group_values ''Kvinna'' df \<noteq> []"
    by (auto simp add: recognized_def other_label_def)
  from perform_ttest_Inr [OF assms(1) a b, of tail]
  obtain r where r: "perform_ttest tail df = Inr r" by blast
  have tp: "(t_stat r, p_val r) = ttest_ind tail (group_values ''Man'' df) (group_values ''Kvinna'' df)"
    by (rule perform_ttest_tp [OF r])
  have nan: "t_stat r = NaN \<and> p_val r = NaN"
  proof (cases "g = ''Man''")
    case True
    with gx tp ttest_ind_singleton_left [of tail x "group_values ''Kvinna'' df"]
    show ?thesis by (metis fst_conv snd_conv)
  next
    case False
    with assms(2) have "g = ''Kvinna''" by (simp add: recognized_def)
    with gx tp ttest_ind_singleton_right [of tail "group_values ''Man'' df" x]
    show ?thesis by (metis fst_conv snd_conv)
  qed
  from perform_ttest_stats [OF r assms(2)] gx
  have "stats_dict r g = Some \<lparr>Medelvarde = np_mean [x], Standardavvikelse = Fin 0, Antal = 1\<rparr>"
    by (simp add: np_std_singleton)
  with r nan show ?thesis by auto
qed

theorem perform_ttest_singleton_witness:
  "\<forall>tail. \<exists>r st. perform_ttest tail
      [\<lparr>Deltagare = 1, Kon = ''Man'', Tid = 45\<rparr>, \<lparr>Deltagare = 2, Kon = ''Kvinna'', Tid = 80\<rparr>,
       \<lparr>Deltagare = 3, Kon = ''Kvinna'', Tid = 90\<rparr>] = Inr r
     \<and> recognized ''Man''
     \<and> stats_dict r ''Man'' = Some st \<and> Antal st = 1 \<and> Standardavvikelse st = Fin 0
     \<and> t_stat r = NaN \<and> p_val r = NaN"
proof
  fix tail
  let ?df = "[\<lparr>Deltagare = 1, Kon = ''Man'', Tid = 45\<rparr>, \<lparr>Deltagare = 2, Kon = ''Kvinna'', Tid = 80\<rparr>,
       \<lparr>Deltagare = 3, Kon = ''Kvinna'', Tid = 90\<rparr>]"
  have h: "2 \<le> length ?df" "recognized ''Man''" "length (filter (\<lambda>x. Kon x = ''Man'') ?df) = 1"
    "\<exists>x\<in>set ?df. Kon x = other_label ''Man''"
    by (simp_all add: recognized_def other_label_def)
  from perform_ttest_singleton [OF h, of tail] h(2)
  show "\<exists>r st. perform_ttest tail ?df = Inr r
     \<and> recognized ''Man''
     \<and> stats_dict r ''Man'' = Some st \<and> Antal st = 1 \<and> Standardavvikelse st = Fin 0
     \<and> t_stat r = NaN \<and> p_val r = NaN"
    by blast
qed

end
